theory Spec2Isabelle
  imports Main "HOL-Library.Sublist"
begin

section \<open>Python strings\<close>

text \<open>
  A Python \<open>str\<close> is a sequence of Unicode code points and \<open>len\<close> counts code points, so a
  string is modelled as the list of its code points.  The literals of the source that are
  not ASCII (Russian words, three pictographs) are written as their code points, with the
  text they spell in a comment.
\<close>

type_synonym pystr = "nat list"

definition asc :: "string \<Rightarrow> pystr" where
  "asc s = map of_char s"

definition py_isspace :: "nat \<Rightarrow> bool" where
  \<comment> \<open>the code points for which \<open>str.isspace\<close> holds; \<open>str.strip()\<close> removes exactly these\<close>
  "py_isspace c \<longleftrightarrow>
     (9 \<le> c \<and> c \<le> 13) \<or> (28 \<le> c \<and> c \<le> 32) \<or> c = 133 \<or> c = 160 \<or> c = 5760 \<or>
     (8192 \<le> c \<and> c \<le> 8202) \<or> c = 8232 \<or> c = 8233 \<or> c = 8239 \<or> c = 8287 \<or> c = 12288"

definition py_strip :: "pystr \<Rightarrow> pystr" where
  \<comment> \<open>\<open>s.strip()\<close>\<close>
  "py_strip s = rev (dropWhile py_isspace (rev (dropWhile py_isspace s)))"

definition lower_cp :: "nat \<Rightarrow> nat" where
  \<comment> \<open>lower-case mapping of one code point: Basic Latin \<open>A-Z\<close> and the Cyrillic capitals
      U+0400..U+042F, where it agrees with \<open>str.lower\<close>; the interpreter's case tables for
      other scripts are not part of the repository and those code points are left as they are\<close>
  "lower_cp c =
     (if 65 \<le> c \<and> c \<le> 90 then c + 32
      else if 1040 \<le> c \<and> c \<le> 1071 then c + 32
      else if 1024 \<le> c \<and> c \<le> 1039 then c + 80
      else c)"

definition upper_cp :: "nat \<Rightarrow> nat" where
  \<comment> \<open>upper-case mapping of one code point, on the same two blocks (\<open>a-z\<close>, U+0430..U+045F)\<close>
  "upper_cp c =
     (if 97 \<le> c \<and> c \<le> 122 then c - 32
      else if 1072 \<le> c \<and> c \<le> 1103 then c - 32
      else if 1104 \<le> c \<and> c \<le> 1119 then c - 80
      else c)"

definition py_lower :: "pystr \<Rightarrow> pystr" where
  \<comment> \<open>\<open>s.lower()\<close>\<close>
  "py_lower s = map lower_cp s"

definition py_upper :: "pystr \<Rightarrow> pystr" where
  \<comment> \<open>\<open>s.upper()\<close>\<close>
  "py_upper s = map upper_cp s"

definition startswith :: "pystr \<Rightarrow> pystr \<Rightarrow> bool" where
  \<comment> \<open>\<open>s.startswith(p)\<close>\<close>
  "startswith s p \<longleftrightarrow> take (length p) s = p"

fun join :: "pystr \<Rightarrow> pystr list \<Rightarrow> pystr" where
  \<comment> \<open>\<open>sep.join(lines)\<close>\<close>
  "join sep [] = []"
| "join sep [l] = l"
| "join sep (l # ls) = l @ sep @ join sep ls"

fun str_nat :: "nat \<Rightarrow> pystr" where
  \<comment> \<open>\<open>str(n)\<close> for a non-negative integer: its decimal digits\<close>
  "str_nat n = (if n < 10 then [48 + n] else str_nat (n div 10) @ [48 + n mod 10])"

declare str_nat.simps [simp del]

section \<open>The result formatter (\<open>format_results\<close>, handlers.py)\<close>

definition no_data_text :: pystr where
  \<comment> \<open>the cross mark U+274C, then "Net dannykh" (no data) in Russian\<close>
  "no_data_text = [10060, 32, 1053, 1077, 1090, 32, 1076, 1072, 1085, 1085, 1099, 1093]"

definition title_line :: pystr where
  \<comment> \<open>the chart pictograph U+1F4CA, then "REZULTATY PARSINGA:" (parsing results) in Russian\<close>
  "title_line = [128202, 32, 1056, 1045, 1047, 1059, 1051, 1068, 1058, 1040, 1058, 1067, 32,
                 1055, 1040, 1056, 1057, 1048, 1053, 1043, 1040, 58]"

definition header_line :: "pystr \<Rightarrow> nat \<Rightarrow> pystr" where
  \<comment> \<open>the f-string: blue diamond U+1F539, space, \<open>field_name.upper()\<close>, " (naideno: " (found),
      \<open>len(items)\<close>, "):"\<close>
  "header_line field_name n =
     [128313, 32] @ py_upper field_name @
     [32, 40, 1085, 1072, 1081, 1076, 1077, 1085, 1086, 58, 32] @ str_nat n @ asc ''):''"

definition item_line :: "nat \<times> pystr \<Rightarrow> pystr" where
  \<comment> \<open>one sample: values longer than 100 are cut to 97 code points plus three dots\<close>
  "item_line p =
     (case p of (i, item) \<Rightarrow>
        let item_str = (if length item > 100 then take 97 item @ asc ''...'' else item)
        in asc ''  '' @ str_nat i @ asc ''. '' @ item_str)"

definition more_line :: "nat \<Rightarrow> pystr" where
  \<comment> \<open>"  ... i eshche N elementov" (and N more items)\<close>
  "more_line n =
     [32, 32, 46, 46, 46, 32, 1080, 32, 1077, 1097, 1077, 32] @ str_nat n @
     [32, 1101, 1083, 1077, 1084, 1077, 1085, 1090, 1086, 1074]"

definition cut_marker :: pystr where
  \<comment> \<open>two line feeds, then "... (soobshchenie obrezano, slishkom mnogo dannykh)"
      (message cut, too much data)\<close>
  "cut_marker =
     [10, 10, 46, 46, 46, 32, 40, 1089, 1086, 1086, 1073, 1097, 1077, 1085, 1080, 1077, 32,
      1086, 1073, 1088, 1077, 1079, 1072, 1085, 1086, 44, 32, 1089, 1083, 1080, 1096, 1082,
      1086, 1084, 32, 1084, 1085, 1086, 1075, 1086, 32, 1076, 1072, 1085, 1085, 1099, 1093, 41]"

definition field_lines :: "pystr \<times> pystr list \<Rightarrow> pystr list" where
  \<comment> \<open>the body of the loop over \<open>results.items()\<close>: the lines one field appends\<close>
  "field_lines p =
     (case p of (field_name, items) \<Rightarrow>
        if items \<noteq> [] then
          [header_line field_name (length items)] @
          map item_line (enumerate 1 (take 5 items)) @
          (if length items > 5 then [more_line (length items - 5)] else []) @
          [[]]
        else [])"

definition result_lines :: "(pystr \<times> pystr list) list \<Rightarrow> pystr list" where
  \<comment> \<open>the list \<open>lines\<close> when the loop has ended\<close>
  "result_lines results = [title_line, []] @ concat (map field_lines results)"

definition format_results :: "(pystr \<times> pystr list) list \<Rightarrow> pystr" where
  "format_results results =
     (if results = [] then no_data_text
      else
        let result_text = join [10] (result_lines results)
        in if length result_text > 4000 then take 3990 result_text @ cut_marker
           else result_text)"

section \<open>The page parser (\<open>Parser\<close>, bs4_scraper.py)\<close>

text \<open>
  The HTTP client and the HTML library are not part of the repository; what the parser
  observes of them is a parameter.  \<open>http_get\<close> is the outcome of the single
  \<open>httpx.get(url, headers, timeout, follow_redirects=True)\<close> call: a response with its status
  code and body text, or one of the exceptions the \<open>except\<close> clauses of \<open>fetch_page\<close> tell apart.
  Its argument is an option because the caller passes \<open>data.get('url')\<close>, which is \<open>None\<close>
  when no url is stored.  \<open>bs\<close> is the \<open>BeautifulSoup\<close> constructor with the parser chosen in
  \<open>__init__\<close> (\<open>None\<close>: it raised); \<open>select\<close> is \<open>soup.select\<close> (\<open>None\<close>: it raised, as on a
  malformed selector); \<open>get_text\<close> is \<open>elem.get_text(strip=True)\<close>; \<open>get_attr\<close> is the attribute
  table of an element, whose values are strings or, for multi-valued attributes, lists.
\<close>

datatype http_result =
    Response nat pystr
  | TimeoutException
  | RequestError
  | OtherException

datatype attr_value = Attr_str pystr | Attr_list "pystr list"

record ('d, 'e) web =
  http_get :: "pystr option \<Rightarrow> http_result"
  bs :: "pystr \<Rightarrow> 'd option"
  select :: "'d \<Rightarrow> pystr \<Rightarrow> 'e list option"
  get_text :: "'e \<Rightarrow> pystr"
  get_attr :: "'e \<Rightarrow> pystr \<Rightarrow> attr_value option"

text \<open>
  A selector as the handlers store it: a plain string, or the dictionary
  \<open>{'selector': ..., 'attr': ...}\<close>, whose \<open>'selector'\<close> entry is \<open>data.get('selector_value')\<close> and
  so may be \<open>None\<close>.  A dictionary is an association list in insertion order; the key of a
  selector is \<open>data.get('current_selector')\<close>, again possibly \<open>None\<close>.
\<close>

datatype selector = Simple pystr | WithAttribute "pystr option" pystr

type_synonym field = "pystr option"
type_synonym selectors = "(field \<times> selector) list"
type_synonym results = "(field \<times> pystr list) list"

fun dict_set :: "'k \<Rightarrow> 'v \<Rightarrow> ('k \<times> 'v) list \<Rightarrow> ('k \<times> 'v) list" where
  \<comment> \<open>\<open>d[k] = v\<close>: a key already present keeps its position, a new key goes last\<close>
  "dict_set k v [] = [(k, v)]"
| "dict_set k v ((k', v') # d) = (if k' = k then (k, v) # d else (k', v') # dict_set k v d)"

definition is_success :: "nat \<Rightarrow> bool" where
  \<comment> \<open>\<open>raise_for_status()\<close> returns normally on the 2xx codes and raises \<open>HTTPStatusError\<close>
      on every other one\<close>
  "is_success code \<longleftrightarrow> 200 \<le> code \<and> code \<le> 299"

definition fetch_page :: "('d, 'e) web \<Rightarrow> pystr option \<Rightarrow> 'd option" where
  \<comment> \<open>every \<open>except\<close> clause logs and falls through to \<open>return None\<close>\<close>
  "fetch_page web url =
     (case http_get web url of
        Response code body \<Rightarrow> (if is_success code then bs web body else None)
      | TimeoutException \<Rightarrow> None
      | RequestError \<Rightarrow> None
      | OtherException \<Rightarrow> None)"

fun extract_elements ::
  "('d, 'e) web \<Rightarrow> pystr option \<Rightarrow> 'e list \<Rightarrow> pystr list \<Rightarrow> pystr list" where
  \<comment> \<open>the loop \<open>for elem in elements\<close> with \<open>results\<close> as accumulator; \<open>.strip()\<close> on a list-valued
      attribute raises, and the \<open>except\<close> clause returns what was collected so far\<close>
  "extract_elements web attr [] results = results"
| "extract_elements web attr (elem # elements) results =
     (case attr of
        None \<Rightarrow>
          (let text = get_text web elem
           in extract_elements web attr elements (if text \<noteq> [] then results @ [text] else results))
      | Some a \<Rightarrow>
          if a = [] then
            (let text = get_text web elem
             in extract_elements web attr elements (if text \<noteq> [] then results @ [text] else results))
          else
            (case get_attr web elem a of
               None \<Rightarrow> extract_elements web attr elements results
             | Some (Attr_str s) \<Rightarrow>
                 (let v = py_strip s
                  in extract_elements web attr elements (if v \<noteq> [] then results @ [v] else results))
             | Some (Attr_list _) \<Rightarrow> results))"

definition extract_by_selector ::
  "('d, 'e) web \<Rightarrow> 'd option \<Rightarrow> pystr \<Rightarrow> pystr option \<Rightarrow> pystr list" where
  "extract_by_selector web soup sel attr =
     (case soup of
        None \<Rightarrow> []
      | Some doc \<Rightarrow>
          (case select web doc sel of
             None \<Rightarrow> []
           | Some elements \<Rightarrow> extract_elements web attr elements []))"

fun extract_fields :: "('d, 'e) web \<Rightarrow> 'd option \<Rightarrow> selectors \<Rightarrow> results \<Rightarrow> results" where
  \<comment> \<open>the loop over \<open>selectors.items()\<close> with the dictionary \<open>results\<close> as accumulator; a
      dictionary selector whose \<open>'selector'\<close> entry is \<open>None\<close> or empty only logs a warning\<close>
  "extract_fields web soup [] results = results"
| "extract_fields web soup ((field_name, Simple sel) # rest) results =
     extract_fields web soup rest
       (dict_set field_name (extract_by_selector web soup sel None) results)"
| "extract_fields web soup ((field_name, WithAttribute sel attr) # rest) results =
     (case sel of
        None \<Rightarrow> extract_fields web soup rest results
      | Some css \<Rightarrow>
          if css = [] then extract_fields web soup rest results
          else extract_fields web soup rest
                 (dict_set field_name (extract_by_selector web soup css (Some attr)) results))"

definition extract_multiple :: "('d, 'e) web \<Rightarrow> 'd option \<Rightarrow> selectors \<Rightarrow> results" where
  "extract_multiple web soup sels =
     (case soup of None \<Rightarrow> [] | Some doc \<Rightarrow> extract_fields web soup sels [])"

definition main_parse :: "('d, 'e) web \<Rightarrow> pystr option \<Rightarrow> selectors \<Rightarrow> results" where
  \<comment> \<open>a \<open>BeautifulSoup\<close> object is always true, so \<open>not soup\<close> holds for \<open>None\<close> only\<close>
  "main_parse web url sels =
     (let soup = fetch_page web url
      in (case soup of None \<Rightarrow> [] | Some doc \<Rightarrow> extract_multiple web soup sels))"

section \<open>The conversation handlers (handlers.py)\<close>

subsection \<open>Messages, the conversation state and what a handler does\<close>

datatype parse_step =
    WAITING_FOR_URL
  | WAITING_FOR_SELECTOR_NAME
  | WAITING_FOR_SELECTOR_VALUE
  | WAITING_FOR_SELECTOR_ATTR
  | CONFIRM_SELECTORS

datatype command = Start | Help | Parse | Quick_parse | Example

text \<open>
  An inbound message: the sender's id, \<open>message.text\<close> (\<open>None\<close> for a message without text)
  and the command keyword that the channel's \<open>Command\<close> filter matches on it, if any.
\<close>

record message =
  from_user :: nat
  msg_text :: "pystr option"
  msg_command :: "command option"

text \<open>
  The data dictionary of the conversation's FSM context; \<open>data.get(key)\<close> is \<open>None\<close> for a key
  that was never set or was removed by \<open>state.clear()\<close>.
\<close>

record fsm_data =
  url :: "pystr option"
  current_selector :: "pystr option"
  selector_type :: "pystr option"
  selector_value :: "pystr option"

definition empty_data :: fsm_data where
  "empty_data = \<lparr>url = None, current_selector = None, selector_type = None, selector_value = None\<rparr>"

text \<open>
  The replies are told apart by the \<open>message.answer\<close> call that sends them and carry the values
  their text is built from; the fixed Russian wording around those values is left out.
\<close>

datatype reply =
    Welcome
  | Instructions
  | Ask_url
  | Url_saved pystr
  | Field_named pystr
  | Ask_attr_css
  | Css_saved pystr
  | Current_selectors selectors
  | No_selectors
  | Parse_starting "pystr option" selectors
  | Parse_done pystr
  | Parse_no_data
  | Parse_failed
  | Selectors_cleared
  | Next_field_named pystr
  | Quick_parse_info
  | Examples

datatype event = Answer reply | Main_parse "pystr option" selectors

text \<open>
  \<open>fsm_state\<close> and \<open>data\<close> are the FSM context of one conversation (\<open>None\<close>: no state set),
  \<open>user_selectors\<close> is the module's global dictionary, and \<open>trace\<close> lists, oldest first, the
  replies sent and the calls of \<open>Parser.main_parse\<close>.  The messaging channel is outside the
  repository: \<open>message.answer\<close> is taken to deliver every reply, so a handler raises only
  where its own code does (\<open>.strip()\<close> on a missing text, a missing key of
  \<open>user_selectors\<close>), and then before it has changed anything.
\<close>

record world =
  fsm_state :: "parse_step option"
  data :: fsm_data
  user_selectors :: "nat \<rightharpoonup> selectors"
  trace :: "event list"

datatype error = AttributeError | KeyError

definition answer :: "reply \<Rightarrow> world \<Rightarrow> world" where
  "answer r w = w\<lparr>trace := trace w @ [Answer r]\<rparr>"

definition set_state :: "parse_step \<Rightarrow> world \<Rightarrow> world" where
  "set_state st w = w\<lparr>fsm_state := Some st\<rparr>"

definition kw_attribute :: pystr where
  \<comment> \<open>"atribut" (attribute) in Russian, lower case\<close>
  "kw_attribute = [1072, 1090, 1088, 1080, 1073, 1091, 1090]"

definition kw_done :: pystr where
  \<comment> \<open>"gotovo" (done) in Russian, lower case\<close>
  "kw_done = [1075, 1086, 1090, 1086, 1074, 1086]"

definition kw_clear :: pystr where
  \<comment> \<open>"ochistit" (clear) in Russian, lower case\<close>
  "kw_clear = [1086, 1095, 1080, 1089, 1090, 1080, 1090, 1100]"

subsection \<open>The handlers\<close>

definition start_cmd :: "message \<Rightarrow> world \<Rightarrow> error + world" where
  "start_cmd m w = Inr (answer Welcome w)"

definition get_help :: "message \<Rightarrow> world \<Rightarrow> error + world" where
  "get_help m w = Inr (answer Instructions w)"

definition get_parse :: "message \<Rightarrow> world \<Rightarrow> error + world" where
  "get_parse m w =
     (let user_id = from_user m;
          w1 = (if user_id \<in> dom (user_selectors w)
                then w\<lparr>user_selectors := (user_selectors w)(user_id \<mapsto> [])\<rparr> else w)
      in Inr (set_state WAITING_FOR_URL (answer Ask_url w1)))"

definition process_url :: "message \<Rightarrow> world \<Rightarrow> error + world" where
  "process_url m w =
     (case msg_text m of
        None \<Rightarrow> Inl AttributeError
      | Some t \<Rightarrow>
          let user_url = py_strip t;
              user_url = (if \<not> (startswith user_url (asc ''http://'') \<or>
                                  startswith user_url (asc ''https://''))
                          then asc ''https://'' @ user_url else user_url);
              w1 = w\<lparr>data := (data w)\<lparr>url := Some user_url\<rparr>\<rparr>;
              w2 = w1\<lparr>user_selectors := (user_selectors w1)(from_user m \<mapsto> [])\<rparr>
          in Inr (set_state WAITING_FOR_SELECTOR_NAME (answer (Url_saved user_url) w2)))"

definition process_selector_name :: "message \<Rightarrow> world \<Rightarrow> error + world" where
  "process_selector_name m w =
     (case msg_text m of
        None \<Rightarrow> Inl AttributeError
      | Some t \<Rightarrow>
          let selector_name = py_strip t;
              w1 = w\<lparr>data := (data w)\<lparr>current_selector := Some selector_name\<rparr>\<rparr>
          in Inr (set_state WAITING_FOR_SELECTOR_VALUE (answer (Field_named selector_name) w1)))"

definition ask_for_next_selector :: "message \<Rightarrow> world \<Rightarrow> world" where
  "ask_for_next_selector m w =
     (let current_selectors = (case user_selectors w (from_user m) of None \<Rightarrow> [] | Some d \<Rightarrow> d)
      in set_state CONFIRM_SELECTORS (answer (Current_selectors current_selectors) w))"

definition process_selector_value :: "message \<Rightarrow> world \<Rightarrow> error + world" where
  "process_selector_value m w =
     (case msg_text m of
        None \<Rightarrow> Inl AttributeError
      | Some t \<Rightarrow>
          let selector_value = py_lower (py_strip t);
              user_id = from_user m;
              selector_name = current_selector (data w)
          in if selector_value = kw_attribute then
               (let w1 = answer Ask_attr_css w
                in Inr (w1\<lparr>data := (data w1)\<lparr>selector_type := Some (asc ''attr'')\<rparr>\<rparr>))
             else
               (case user_selectors w user_id of
                  None \<Rightarrow> Inl KeyError
                | Some d \<Rightarrow>
                    Inr (ask_for_next_selector m
                          (w\<lparr>user_selectors := (user_selectors w)
                                (user_id \<mapsto> dict_set selector_name (Simple selector_value) d)\<rparr>))))"

definition process_selector_for_attr :: "message \<Rightarrow> world \<Rightarrow> error + world" where
  "process_selector_for_attr m w =
     (case msg_text m of
        None \<Rightarrow> Inl AttributeError
      | Some t \<Rightarrow>
          let sel = py_strip t;
              w1 = w\<lparr>data := (data w)\<lparr>selector_value := Some sel\<rparr>\<rparr>
          in Inr (set_state WAITING_FOR_SELECTOR_ATTR (answer (Css_saved sel) w1)))"

definition process_selector_attr :: "message \<Rightarrow> world \<Rightarrow> error + world" where
  "process_selector_attr m w =
     (case msg_text m of
        None \<Rightarrow> Inl AttributeError
      | Some t \<Rightarrow>
          let attr_name = py_strip t;
              user_id = from_user m;
              selector_name = current_selector (data w);
              sel = selector_value (data w)
          in (case user_selectors w user_id of
                None \<Rightarrow> Inl KeyError
              | Some d \<Rightarrow>
                  Inr (ask_for_next_selector m
                        (w\<lparr>user_selectors := (user_selectors w)
                              (user_id \<mapsto> dict_set selector_name (WithAttribute sel attr_name) d)\<rparr>))))"

definition field_text :: "field \<times> pystr list \<Rightarrow> pystr \<times> pystr list" where
  \<comment> \<open>a result entry as \<open>format_results\<close> reads it once no key with items is \<open>None\<close>: the name
      of a field without items is never looked at\<close>
  "field_text p = (case fst p of None \<Rightarrow> ([], snd p) | Some name \<Rightarrow> (name, snd p))"

definition parse_reply :: "results \<Rightarrow> reply" where
  \<comment> \<open>the body of the \<open>try\<close> after \<open>main_parse\<close> returned: on the key \<open>None\<close> with items,
      \<open>field_name.upper()\<close> raises inside \<open>format_results\<close> and the \<open>except\<close> clause answers\<close>
  "parse_reply res =
     (if res = [] then Parse_no_data
      else if list_ex (\<lambda>p. fst p = None \<and> snd p \<noteq> []) res then Parse_failed
      else Parse_done (format_results (map field_text res)))"

definition finish_selectors :: "('d, 'e) web \<Rightarrow> message \<Rightarrow> world \<Rightarrow> error + world" where
  "finish_selectors web m w =
     (let user_id = from_user m;
          url = url (data w);
          sels = (case user_selectors w user_id of None \<Rightarrow> [] | Some d \<Rightarrow> d)
      in if sels = [] then
           Inr (set_state WAITING_FOR_SELECTOR_NAME (answer No_selectors w))
         else
           (let w1 = w\<lparr>fsm_state := None, data := empty_data\<rparr>;
                w2 = answer (Parse_starting url sels) w1;
                res = main_parse web url sels;
                w3 = w2\<lparr>trace := trace w2 @ [Main_parse url sels]\<rparr>
            in Inr (answer (parse_reply res) w3)))"

definition clear_selectors :: "message \<Rightarrow> world \<Rightarrow> error + world" where
  "clear_selectors m w =
     (let w1 = w\<lparr>user_selectors := (user_selectors w)(from_user m \<mapsto> [])\<rparr>
      in Inr (set_state WAITING_FOR_SELECTOR_NAME (answer Selectors_cleared w1)))"

definition add_next_selector :: "message \<Rightarrow> world \<Rightarrow> error + world" where
  "add_next_selector m w =
     (case msg_text m of
        None \<Rightarrow> Inl AttributeError
      | Some t \<Rightarrow>
          let selector_name = py_strip t;
              w1 = w\<lparr>data := (data w)\<lparr>current_selector := Some selector_name\<rparr>\<rparr>
          in Inr (set_state WAITING_FOR_SELECTOR_VALUE
                    (answer (Next_field_named selector_name) w1)))"

definition quick_parse_command :: "message \<Rightarrow> world \<Rightarrow> error + world" where
  "quick_parse_command m w = Inr (answer Quick_parse_info w)"

definition show_examples :: "message \<Rightarrow> world \<Rightarrow> error + world" where
  "show_examples m w = Inr (answer Examples w)"

subsection \<open>The router\<close>

definition has_text :: "message \<Rightarrow> bool" where
  \<comment> \<open>the filter \<open>F.text\<close>: the message has a text and it is not empty\<close>
  "has_text m \<longleftrightarrow> (case msg_text m of None \<Rightarrow> False | Some t \<Rightarrow> t \<noteq> [])"

definition text_lower_is :: "pystr \<Rightarrow> message \<Rightarrow> bool" where
  \<comment> \<open>the filter \<open>F.text.lower() == kw\<close>\<close>
  "text_lower_is kw m \<longleftrightarrow> (case msg_text m of None \<Rightarrow> False | Some t \<Rightarrow> py_lower t = kw)"

definition dispatch :: "('d, 'e) web \<Rightarrow> message \<Rightarrow> world \<Rightarrow> error + world" where
  \<comment> \<open>the handlers in the order the module registers them; the first whose filters pass
      runs, and a message no handler takes changes nothing\<close>
  "dispatch web m w =
     (if msg_command m = Some Start then start_cmd m w
      else if msg_command m = Some Help then get_help m w
      else if msg_command m = Some Parse then get_parse m w
      else if fsm_state w = Some WAITING_FOR_URL \<and> has_text m then process_url m w
      else if fsm_state w = Some WAITING_FOR_SELECTOR_NAME \<and> has_text m
        then process_selector_name m w
      else if fsm_state w = Some WAITING_FOR_SELECTOR_VALUE \<and> has_text m
        then process_selector_value m w
      else if fsm_state w = Some WAITING_FOR_SELECTOR_VALUE then process_selector_for_attr m w
      else if fsm_state w = Some WAITING_FOR_SELECTOR_ATTR \<and> has_text m
        then process_selector_attr m w
      else if fsm_state w = Some CONFIRM_SELECTORS \<and> text_lower_is kw_done m
        then finish_selectors web m w
      else if fsm_state w = Some CONFIRM_SELECTORS \<and> text_lower_is kw_clear m
        then clear_selectors m w
      else if fsm_state w = Some CONFIRM_SELECTORS \<and> has_text m then add_next_selector m w
      else if msg_command m = Some Quick_parse then quick_parse_command m w
      else if msg_command m = Some Example then show_examples m w
      else Inr w)"

fun run :: "('d, 'e) web \<Rightarrow> message list \<Rightarrow> world \<Rightarrow> error + world" where
  \<comment> \<open>the turns of one conversation in arrival order, up to the first handler that raises\<close>
  "run web [] w = Inr w"
| "run web (m # ms) w = (case dispatch web m w of Inl e \<Rightarrow> Inl e | Inr w' \<Rightarrow> run web ms w')"

definition init_world :: world where
  \<comment> \<open>a fresh process: no FSM state, no data, \<open>user_selectors = {}\<close>\<close>
  "init_world = \<lparr>fsm_state = None, data = empty_data, user_selectors = Map.empty, trace = []\<rparr>"

definition text_msg :: "nat \<Rightarrow> pystr \<Rightarrow> message" where
  \<comment> \<open>a plain text message, matched by no command filter\<close>
  "text_msg uid t = \<lparr>from_user = uid, msg_text = Some t, msg_command = None\<rparr>"

section \<open>Reference notions and sample inputs\<close>

text \<open>
  The definitions of this section are not translated from the code.  Those named \<open>spec_\<close>
  write down a notion of the specification, to be compared with what the code computes;
  \<open>plain_addition\<close>, \<open>plain_turns\<close> and \<open>stored_plain\<close> describe the turns of a conversation
  that adds selectors, which the theorems then run through the router; the rest are
  concrete inputs on which the theorems below are evaluated.
\<close>

definition spec_sample :: "pystr \<Rightarrow> pystr" where
  \<comment> \<open>a sample value as shown: at most 100 code points, a longer value ending in three dots\<close>
  "spec_sample v = (if length v \<le> 100 then v else take 97 v @ asc ''...'')"

definition spec_field_block :: "pystr \<times> pystr list \<Rightarrow> pystr list" where
  \<comment> \<open>what one field with values is rendered as: the header line, the first five values at
      most, numbered from 1, the remainder line when more than five matched, a blank line\<close>
  "spec_field_block p =
     header_line (fst p) (length (snd p)) #
     map (\<lambda>i. asc ''  '' @ str_nat (Suc i) @ asc ''. '' @ spec_sample (snd p ! i))
         [0..<min 5 (length (snd p))] @
     (if 5 < length (snd p) then [more_line (length (snd p) - 5)] else []) @
     [[]]"

definition scheme_char :: "nat \<Rightarrow> bool" where
  \<comment> \<open>a letter, a digit, \<open>+\<close>, \<open>-\<close> or \<open>.\<close>\<close>
  "scheme_char c \<longleftrightarrow>
     (65 \<le> c \<and> c \<le> 90) \<or> (97 \<le> c \<and> c \<le> 122) \<or> (48 \<le> c \<and> c \<le> 57) \<or>
     c = 43 \<or> c = 45 \<or> c = 46"

definition spec_has_scheme :: "pystr \<Rightarrow> bool" where
  \<comment> \<open>the text begins with a URL scheme (a letter, then scheme characters) followed by \<open>://\<close>\<close>
  "spec_has_scheme t =
     (case takeWhile scheme_char t of
        [] \<Rightarrow> False
      | c # _ \<Rightarrow> ((65 \<le> c \<and> c \<le> 90) \<or> (97 \<le> c \<and> c \<le> 122)) \<and>
                 startswith (dropWhile scheme_char t) (asc ''://''))"

definition spec_fetch_failure :: "('d, 'e) web \<Rightarrow> http_result \<Rightarrow> bool" where
  \<comment> \<open>a fetch failure: a response outside 2xx, a timeout, a request error, any other
      exception, including one raised while the body is parsed\<close>
  "spec_fetch_failure web r =
     (case r of
        Response code body \<Rightarrow> code < 200 \<or> 299 < code \<or> bs web body = None
      | TimeoutException \<Rightarrow> True
      | RequestError \<Rightarrow> True
      | OtherException \<Rightarrow> True)"

definition plain_addition :: "pystr \<times> pystr \<Rightarrow> bool" where
  \<comment> \<open>a field name and a selector text that a conversation takes as the addition of a plain
      selector: neither is empty, the name is not a keyword of the review step and the
      selector is not the attribute keyword\<close>
  "plain_addition p \<longleftrightarrow>
     fst p \<noteq> [] \<and> py_lower (fst p) \<noteq> kw_done \<and> py_lower (fst p) \<noteq> kw_clear \<and>
     snd p \<noteq> [] \<and> py_lower (py_strip (snd p)) \<noteq> kw_attribute"

definition plain_turns :: "nat \<Rightarrow> (pystr \<times> pystr) list \<Rightarrow> message list" where
  \<comment> \<open>the turns of a sequence of additions: for each one the field name, then the selector\<close>
  "plain_turns uid adds = concat (map (\<lambda>p. [text_msg uid (fst p), text_msg uid (snd p)]) adds)"

definition stored_plain :: "pystr \<times> pystr \<Rightarrow> field \<times> selector" where
  \<comment> \<open>the key and the selector under which such an addition is kept\<close>
  "stored_plain p = (Some (py_strip (fst p)), Simple (py_lower (py_strip (snd p))))"

definition observe ::
  "nat \<Rightarrow> error + world \<Rightarrow> error + (parse_step option \<times> fsm_data \<times> selectors option)" where
  \<comment> \<open>what a run leaves behind for one user: the step, the data, the stored selectors\<close>
  "observe uid r =
     (case r of
        Inl e \<Rightarrow> Inl e
      | Inr w \<Rightarrow> Inr (fsm_state w, data w, user_selectors w uid))"

definition long_value :: pystr where
  \<comment> \<open>a value of 120 letters \<open>x\<close>\<close>
  "long_value = replicate 120 120"

definition long_result :: "(pystr \<times> pystr list) list" where
  \<comment> \<open>one field, named by 3500 letters \<open>A\<close>, with six long values\<close>
  "long_result =
     [(replicate 3500 65,
       [long_value, long_value, long_value, long_value, long_value, long_value])]"

definition web_down :: "(unit, unit) web" where
  \<comment> \<open>a site that never answers in time\<close>
  "web_down =
     \<lparr>http_get = (\<lambda>_. TimeoutException), bs = (\<lambda>_. None), select = (\<lambda>_ _. None),
      get_text = (\<lambda>_. []), get_attr = (\<lambda>_ _. None)\<rparr>"

definition web_404 :: "(unit, unit) web" where
  \<comment> \<open>a site that answers every request with status 404\<close>
  "web_404 =
     \<lparr>http_get = (\<lambda>_. Response 404 (asc ''Not Found'')), bs = (\<lambda>_. Some ()),
      select = (\<lambda>_ _. Some []), get_text = (\<lambda>_. []), get_attr = (\<lambda>_ _. None)\<rparr>"

definition parse_msg :: "nat \<Rightarrow> message" where
  \<comment> \<open>the command \<open>/parse\<close>\<close>
  "parse_msg uid =
     \<lparr>from_user = uid, msg_text = Some (asc ''/parse''), msg_command = Some Parse\<rparr>"

definition example_url :: pystr where
  "example_url = asc ''https://example.com''"

definition at_step :: "parse_step \<Rightarrow> pystr option \<Rightarrow> selectors \<Rightarrow> world" where
  \<comment> \<open>user 7 at a given step, with the example url, a pending field name and stored selectors\<close>
  "at_step st name d =
     \<lparr>fsm_state = Some st,
      data = \<lparr>url = Some example_url, current_selector = name, selector_type = None,
              selector_value = None\<rparr>,
      user_selectors = [7 \<mapsto> d],
      trace = []\<rparr>"

definition three_adds :: "(pystr \<times> pystr) list" where
  \<comment> \<open>the field \<open>a\<close> is added twice, with \<open>b\<close> in between\<close>
  "three_adds = [(asc ''a'', asc ''h1''), (asc ''b'', asc ''h2''), (asc ''a'', asc ''h3'')]"

definition two_fields :: selectors where
  "two_fields = [(Some (asc ''a''), Simple (asc ''h1'')), (Some (asc ''b''), Simple (asc ''h2''))]"

definition attr_world :: world where
  \<comment> \<open>user 7 asked for the attribute name of the field \<open>a\<close>, with the css \<open>img\<close> pending and
      two fields stored\<close>
  "attr_world =
     \<lparr>fsm_state = Some WAITING_FOR_SELECTOR_ATTR,
      data = \<lparr>url = Some example_url, current_selector = Some (asc ''a''),
              selector_type = None, selector_value = Some (asc ''img'')\<rparr>,
      user_selectors = [7 \<mapsto> two_fields],
      trace = []\<rparr>"

section \<open>Properties of the result formatter\<close>

lemma length_cut_marker: "length cut_marker = 48"
  by (simp add: cut_marker_def)

lemma format_results_cut:
  assumes "results \<noteq> []" and "4000 < length (join [10] (result_lines results))"
  shows "format_results results = take 3990 (join [10] (result_lines results)) @ cut_marker"
  using assms by (simp add: format_results_def Let_def)

lemma format_results_fits:
  assumes "results \<noteq> []" and "length (join [10] (result_lines results)) \<le> 4000"
  shows "format_results results = join [10] (result_lines results)"
  using assms by (simp add: format_results_def Let_def)

lemma format_results_bound: "length (format_results results) \<le> 4038"
  by (simp add: format_results_def Let_def length_cut_marker no_data_text_def)

lemma format_results_marker:
  assumes "results \<noteq> []" and "4000 < length (join [10] (result_lines results))"
  shows "suffix cut_marker (format_results results)"
  using assms by (simp add: format_results_cut suffix_def)

lemma small_numerals:
  "(2::nat) = Suc (Suc 0)" "(3::nat) = Suc (Suc (Suc 0))" "(4::nat) = Suc (Suc (Suc (Suc 0)))"
  "(5::nat) = Suc (Suc (Suc (Suc (Suc 0))))" "(6::nat) = Suc (Suc (Suc (Suc (Suc (Suc 0)))))"
  by simp_all

lemma long_result_lines:
  "result_lines long_result =
     [title_line, [],
      header_line (replicate 3500 65) 6,
      item_line (1, long_value), item_line (2, long_value), item_line (3, long_value),
      item_line (4, long_value), item_line (5, long_value),
      more_line 1, []]"
  by (simp add: long_result_def result_lines_def field_lines_def small_numerals)

lemma length_long_result: "length (join [10] (result_lines long_result)) = 4095"
  by (simp add: long_result_lines title_line_def header_line_def item_line_def more_line_def
      long_value_def py_upper_def asc_def str_nat.simps Let_def)

text \<open>
  C3 (the rendered text has at most 4000 characters).  The code cuts a text longer than 4000
  to its first 3990 code points and appends a marker of 48 code points.  For one field
  whose name is 3500 times the letter A and which has six values of 120 letters, the
  rendering has 4095 code points and the text returned has 4038.
\<close>

theorem format_results_exceeds_4000:
  "length (format_results long_result) = 4038"
proof -
  have "long_result \<noteq> []"
    by (simp add: long_result_def)
  then have "format_results long_result =
             take 3990 (join [10] (result_lines long_result)) @ cut_marker"
    by (simp add: format_results_cut length_long_result)
  then show ?thesis
    by (simp add: length_long_result length_cut_marker)
qed

lemma length_spec_sample: "length (spec_sample v) \<le> 100"
  by (simp add: spec_sample_def asc_def)

lemma item_line_sample:
  "item_line (n, v) = asc ''  '' @ str_nat n @ asc ''. '' @ spec_sample v"
  by (auto simp: item_line_def spec_sample_def Let_def)

lemma enumerate_item_lines:
  "map item_line (enumerate n xs) =
   map (\<lambda>i. asc ''  '' @ str_nat (n + i) @ asc ''. '' @ spec_sample (xs ! i)) [0..<length xs]"
  by (rule nth_equalityI) (simp_all add: nth_enumerate_eq item_line_sample)

lemma item_lines_by_index:
  "map item_line (enumerate 1 (take 5 items)) =
   map (\<lambda>i. asc ''  '' @ str_nat (Suc i) @ asc ''. '' @ spec_sample (items ! i))
       [0..<min 5 (length items)]"
proof -
  have "map item_line (enumerate 1 (take 5 items)) =
        map (\<lambda>i. asc ''  '' @ str_nat (1 + i) @ asc ''. '' @ spec_sample (take 5 items ! i))
            [0..<length (take 5 items)]"
    by (rule enumerate_item_lines)
  also have "\<dots> = map (\<lambda>i. asc ''  '' @ str_nat (Suc i) @ asc ''. '' @ spec_sample (items ! i))
                     [0..<min 5 (length items)]"
    by (rule map_cong) (simp_all add: min.commute)
  finally show ?thesis .
qed

lemma field_lines_block:
  "field_lines p = (if snd p = [] then [] else spec_field_block p)"
proof (cases p)
  case (Pair name items)
  show ?thesis
    unfolding Pair field_lines_def spec_field_block_def item_lines_by_index
    by simp
qed

lemma concat_field_lines:
  "concat (map field_lines results) =
   concat (map spec_field_block (filter (\<lambda>p. snd p \<noteq> []) results))"
  by (induction results) (simp_all add: field_lines_block)

text \<open>
  C5, as stated (every field is rendered, also one whose value sequence is empty), fails:
  the loop skips a field without values, so the result \<open>{'a': []}\<close> is rendered as the title
  line alone, with no header line for \<open>a\<close>.
\<close>

theorem format_results_skips_empty_field:
  "format_results [(asc ''a'', [])] = title_line @ [10] \<and>
   header_line (asc ''a'') 0 \<notin> set (result_lines [(asc ''a'', [])])"
  by (simp add: format_results_def result_lines_def field_lines_def title_line_def
      header_line_def)

text \<open>
  C5, amended.  For every non-empty result whose rendering has at most 4000 code points,
  the text returned is the title line, a blank line and then, in the order of the mapping,
  one block for every field that has at least one value: the header line with the
  upper-cased field name and the number of values, the first five values at most, numbered
  from 1, each one longer than 100 code points cut to its first 97 followed by three dots,
  a remainder line with the number of values minus 5 when there are more than five, and a
  blank line.  A field without values is rendered as nothing.
\<close>

theorem format_results_blocks:
  assumes "results \<noteq> []" and "length (join [10] (result_lines results)) \<le> 4000"
  shows "format_results results =
           join [10] (title_line # [] #
                      concat (map spec_field_block (filter (\<lambda>p. snd p \<noteq> []) results)))
         \<and> (\<forall>v. length (spec_sample v) \<le> 100)"
  using assms
  by (simp add: format_results_fits result_lines_def concat_field_lines length_spec_sample)

theorem format_results_blocks_witness:
  "[(asc ''ab'', [asc ''x'']), (asc ''c'', [])] \<noteq> [] \<and>
   length (join [10] (result_lines [(asc ''ab'', [asc ''x'']), (asc ''c'', [])])) \<le> 4000 \<and>
   format_results [(asc ''ab'', [asc ''x'']), (asc ''c'', [])] =
     join [10] [title_line, [], header_line (asc ''ab'') 1, asc ''  1. x'', []]"
  using format_results_blocks [of "[(asc ''ab'', [asc ''x'']), (asc ''c'', [])]"]
  by (simp add: result_lines_def field_lines_def spec_field_block_def spec_sample_def
       title_line_def header_line_def item_line_def str_nat.simps asc_def py_upper_def)

section \<open>Properties of the page parser\<close>

text \<open>
  C9.  For every url and every fetch failure (a response whose status is not 2xx, a timeout,
  a request error, any other exception, also one raised while the body is parsed),
  \<open>fetch_page\<close> returns \<open>None\<close> instead of raising, and \<open>main_parse\<close> then returns the empty
  mapping, whatever the selectors are.
\<close>

theorem fetch_failure_no_document:
  assumes "spec_fetch_failure web (http_get web u)"
  shows "fetch_page web u = None \<and> main_parse web u sels = []"
  using assms
  by (auto simp: spec_fetch_failure_def fetch_page_def main_parse_def is_success_def
      split: http_result.splits)

theorem fetch_failure_no_document_witness:
  "spec_fetch_failure web_404 (http_get web_404 (Some example_url)) \<and>
   fetch_page web_404 (Some example_url) = None \<and>
   main_parse web_404 (Some example_url) [(Some (asc ''t''), Simple (asc ''h1''))] = []"
  using fetch_failure_no_document
    [of web_404 "Some example_url" "[(Some (asc ''t''), Simple (asc ''h1''))]"]
  by (simp add: spec_fetch_failure_def web_404_def)

section \<open>Properties of the selector dictionary\<close>

lemma map_of_dict_set: "map_of (dict_set k v d) = (map_of d)(k \<mapsto> v)"
  by (induction d) auto

lemma keys_dict_set:
  "map fst (dict_set k v d) = (if k \<in> fst ` set d then map fst d else map fst d @ [k])"
  by (induction d) (auto simp: rev_image_eqI)

lemma map_of_foldl_dict_set:
  "map_of (foldl (\<lambda>d p. dict_set (fst p) (snd p) d) [] adds) = map_of (rev adds)"
proof (induction adds rule: rev_induct)
  case Nil
  show ?case by simp
next
  case (snoc p adds)
  show ?case
    by (cases p) (simp add: map_of_dict_set snoc.IH)
qed

lemma keys_foldl_dict_set:
  "map fst (foldl (\<lambda>d p. dict_set (fst p) (snd p) d) [] adds) =
   rev (remdups (rev (map fst adds)))"
proof (induction adds rule: rev_induct)
  case Nil
  show ?case by simp
next
  case (snoc p adds)
  have "fst ` set (foldl (\<lambda>d p. dict_set (fst p) (snd p) d) [] adds) = fst ` set adds"
    using snoc.IH by (metis list.set_map set_remdups set_rev)
  then show ?case
    by (simp add: keys_dict_set snoc.IH)
qed

section \<open>Properties of the conversation handlers\<close>

text \<open>
  In every step a message that the \<open>Command\<close> filter matches as \<open>/start\<close>, \<open>/help\<close> or
  \<open>/parse\<close> is taken by that command's handler, which is registered first; the theorems
  about text turns are therefore about messages matched by none of the three.
\<close>

lemmas step_defs =
  dispatch_def has_text_def text_lower_is_def get_parse_def process_url_def
  process_selector_name_def process_selector_value_def process_selector_for_attr_def
  process_selector_attr_def finish_selectors_def clear_selectors_def add_next_selector_def
  ask_for_next_selector_def answer_def set_state_def

lemmas string_defs =
  asc_def py_strip_def py_lower_def lower_cp_def py_isspace_def startswith_def
  kw_attribute_def kw_done_def kw_clear_def

lemmas sample_defs =
  init_world_def empty_data_def text_msg_def parse_msg_def observe_def example_url_def

lemma py_strip_empty_iff: "py_strip t = [] \<longleftrightarrow> (\<forall>c\<in>set t. py_isspace c)"
proof
  assume "py_strip t = []"
  then have "\<forall>c\<in>set (dropWhile py_isspace t). py_isspace c"
    by (simp add: py_strip_def)
  then have "dropWhile py_isspace t = []"
    using hd_dropWhile [of py_isspace t] by (metis hd_in_set)
  then show "\<forall>c\<in>set t. py_isspace c"
    by simp
next
  assume "\<forall>c\<in>set t. py_isspace c"
  then show "py_strip t = []"
    by (auto simp: py_strip_def dest: set_dropWhileD)
qed

subsection \<open>The start of a build\<close>

lemma get_parse_resets:
  assumes "msg_command m = Some Parse"
  shows "\<exists>w'. dispatch web m w = Inr w' \<and>
               fsm_state w' = Some WAITING_FOR_URL \<and> data w' = data w \<and>
               user_selectors w' (from_user m) =
                 (case user_selectors w (from_user m) of None \<Rightarrow> None | Some d \<Rightarrow> Some [])"
  using assms
  by (auto simp: dispatch_def get_parse_def answer_def set_state_def Let_def dom_def
      split: option.splits)

subsection \<open>The url turn\<close>

text \<open>
  C6, as stated (the url is prefixed with \<open>https://\<close> if and only if the text contains no
  scheme), fails: the text \<open>ftp://a\<close> has the scheme \<open>ftp\<close>, and the url stored for it is
  \<open>https://ftp://a\<close>.
\<close>

theorem process_url_prefixes_ftp:
  "spec_has_scheme (asc ''ftp://a'') \<and>
   observe 7 (run web_down [parse_msg 7, text_msg 7 (asc ''ftp://a'')] init_world) =
     Inr (Some WAITING_FOR_SELECTOR_NAME,
          \<lparr>url = Some (asc ''https://ftp://a''), current_selector = None,
           selector_type = None, selector_value = None\<rparr>,
          Some [])"
  by (simp add: spec_has_scheme_def scheme_char_def step_defs string_defs sample_defs Let_def)

text \<open>
  C6, amended.  In the step \<open>WAITING_FOR_URL\<close>, for every non-empty text, the url stored is
  the trimmed text when it starts with \<open>http://\<close> or \<open>https://\<close>, written exactly so, and
  the trimmed text prefixed with \<open>https://\<close> otherwise; the sender's selectors are set to
  the empty dictionary and the step becomes \<open>WAITING_FOR_SELECTOR_NAME\<close>.
\<close>

theorem process_url_stores:
  assumes "fsm_state w = Some WAITING_FOR_URL"
    and "msg_command m \<notin> {Some Start, Some Help, Some Parse}"
    and "msg_text m = Some t" and "t \<noteq> []"
  shows "\<exists>w'. dispatch web m w = Inr w' \<and>
               url (data w') =
                 Some (if startswith (py_strip t) (asc ''http://'') \<or>
                          startswith (py_strip t) (asc ''https://'')
                       then py_strip t else asc ''https://'' @ py_strip t) \<and>
               user_selectors w' (from_user m) = Some [] \<and>
               fsm_state w' = Some WAITING_FOR_SELECTOR_NAME"
  using assms
  by (auto simp: dispatch_def has_text_def process_url_def answer_def set_state_def Let_def)

theorem process_url_stores_witness:
  "\<exists>w'. dispatch web_down (text_msg 7 (asc '' http://a.b ''))
            (at_step WAITING_FOR_URL None [(Some (asc ''old''), Simple (asc ''p''))]) = Inr w' \<and>
        url (data w') = Some (asc ''http://a.b'') \<and>
        user_selectors w' 7 = Some [] \<and>
        fsm_state w' = Some WAITING_FOR_SELECTOR_NAME"
  using process_url_stores
    [of "at_step WAITING_FOR_URL None [(Some (asc ''old''), Simple (asc ''p''))]"
        "text_msg 7 (asc '' http://a.b '')" "asc '' http://a.b ''" web_down]
  by (auto simp: at_step_def text_msg_def string_defs)

subsection \<open>The field name turn\<close>

text \<open>
  C7, as stated (an empty field name is rejected and never becomes a key), fails: after
  \<open>/parse\<close> and a url, the text of one space is taken as the field name, trimmed to the
  empty string, and the selector \<open>h1\<close> that follows is stored under the empty key.
\<close>

theorem empty_field_name_stored:
  "observe 7 (run web_down [parse_msg 7, text_msg 7 (asc ''example.com''), text_msg 7 (asc '' ''),
                            text_msg 7 (asc ''h1'')] init_world) =
     Inr (Some CONFIRM_SELECTORS,
          \<lparr>url = Some (asc ''https://example.com''), current_selector = Some [],
           selector_type = None, selector_value = None\<rparr>,
          Some [(Some [], Simple (asc ''h1''))])"
  by (simp add: step_defs string_defs sample_defs Let_def)

text \<open>
  C7, amended.  For every turn supplying a field name (a non-empty text in the step
  \<open>WAITING_FOR_SELECTOR_NAME\<close>, or in \<open>CONFIRM_SELECTORS\<close> when it is neither keyword), the
  trimmed text is stored as the pending field name without any check, the user is asked
  for the selector and the step becomes \<open>WAITING_FOR_SELECTOR_VALUE\<close>; the stored selectors
  are not touched by this turn.  The name is empty exactly when the text is all white
  space (\<open>py_strip_empty_iff\<close>).
\<close>

theorem field_name_stored_unchecked:
  assumes "fsm_state w = Some WAITING_FOR_SELECTOR_NAME \<or>
           (fsm_state w = Some CONFIRM_SELECTORS \<and> py_lower t \<noteq> kw_done \<and> py_lower t \<noteq> kw_clear)"
    and "msg_command m \<notin> {Some Start, Some Help, Some Parse}"
    and "msg_text m = Some t" and "t \<noteq> []"
  shows "\<exists>w'. dispatch web m w = Inr w' \<and>
               fsm_state w' = Some WAITING_FOR_SELECTOR_VALUE \<and>
               current_selector (data w') = Some (py_strip t) \<and>
               user_selectors w' = user_selectors w \<and>
               (trace w' = trace w @ [Answer (Field_named (py_strip t))] \<or>
                trace w' = trace w @ [Answer (Next_field_named (py_strip t))])"
  using assms
  by (auto simp: dispatch_def has_text_def text_lower_is_def process_selector_name_def
      add_next_selector_def answer_def set_state_def Let_def)

theorem field_name_stored_unchecked_witness:
  "\<exists>w'. dispatch web_down (text_msg 7 (asc '' '')) (at_step WAITING_FOR_SELECTOR_NAME None []) =
          Inr w' \<and>
        fsm_state w' = Some WAITING_FOR_SELECTOR_VALUE \<and>
        current_selector (data w') = Some []"
  using field_name_stored_unchecked
    [of "at_step WAITING_FOR_SELECTOR_NAME None []" "asc '' ''" "text_msg 7 (asc '' '')" web_down]
  by (auto simp: at_step_def text_msg_def string_defs)

subsection \<open>The selector turns\<close>

lemma selector_text_stored:
  assumes "fsm_state w = Some WAITING_FOR_SELECTOR_VALUE"
    and "msg_command m \<notin> {Some Start, Some Help, Some Parse}"
    and "msg_text m = Some t" and "t \<noteq> []"
    and "py_lower (py_strip t) \<noteq> kw_attribute"
    and "user_selectors w (from_user m) = Some d"
  shows "\<exists>w'. dispatch web m w = Inr w' \<and>
               fsm_state w' = Some CONFIRM_SELECTORS \<and>
               user_selectors w' (from_user m) =
                 Some (dict_set (current_selector (data w)) (Simple (py_lower (py_strip t))) d)"
  using assms
  by (auto simp: dispatch_def has_text_def process_selector_value_def
      ask_for_next_selector_def answer_def set_state_def Let_def)

lemma attribute_name_stored:
  assumes "fsm_state w = Some WAITING_FOR_SELECTOR_ATTR"
    and "msg_command m \<notin> {Some Start, Some Help, Some Parse}"
    and "msg_text m = Some t" and "t \<noteq> []"
    and "user_selectors w (from_user m) = Some d"
  shows "\<exists>w'. dispatch web m w = Inr w' \<and>
               fsm_state w' = Some CONFIRM_SELECTORS \<and>
               user_selectors w' (from_user m) =
                 Some (dict_set (current_selector (data w))
                         (WithAttribute (selector_value (data w)) (py_strip t)) d)"
  using assms
  by (auto simp: dispatch_def has_text_def process_selector_attr_def
      ask_for_next_selector_def answer_def set_state_def Let_def)

lemma attribute_keyword_stays:
  assumes "fsm_state w = Some WAITING_FOR_SELECTOR_VALUE"
    and "msg_command m \<notin> {Some Start, Some Help, Some Parse}"
    and "msg_text m = Some t" and "t \<noteq> []"
    and "py_lower (py_strip t) = kw_attribute"
  shows "dispatch web m w =
           Inr (w\<lparr>data := (data w)\<lparr>selector_type := Some (asc ''attr'')\<rparr>,
                  trace := trace w @ [Answer Ask_attr_css]\<rparr>)"
  using assms
  by (auto simp: dispatch_def has_text_def process_selector_value_def answer_def Let_def)

lemma text_turn_never_asks_attribute:
  assumes "fsm_state w = Some WAITING_FOR_SELECTOR_VALUE" and "has_text m"
    and "dispatch web m w = Inr w'"
  shows "fsm_state w' \<noteq> Some WAITING_FOR_SELECTOR_ATTR"
  using assms
  by (auto simp: dispatch_def has_text_def start_cmd_def get_help_def get_parse_def
      process_selector_value_def ask_for_next_selector_def answer_def set_state_def Let_def
      split: option.splits if_splits)

text \<open>
  A repeated field name in a conversation: \<open>a\<close>, \<open>b\<close> and \<open>a\<close> again leave \<open>a\<close> first, with
  the selector of its second addition.
\<close>

lemma duplicate_field_run:
  "observe 7 (run web_down [parse_msg 7, text_msg 7 (asc ''example.com''),
                            text_msg 7 (asc ''a''), text_msg 7 (asc ''h1''),
                            text_msg 7 (asc ''b''), text_msg 7 (asc ''h2''),
                            text_msg 7 (asc ''a''), text_msg 7 (asc ''h3'')] init_world) =
     Inr (Some CONFIRM_SELECTORS,
          \<lparr>url = Some (asc ''https://example.com''), current_selector = Some (asc ''a''),
           selector_type = None, selector_value = None\<rparr>,
          Some [(Some (asc ''a''), Simple (asc ''h3'')), (Some (asc ''b''), Simple (asc ''h2''))])"
  by (simp add: step_defs string_defs sample_defs Let_def)

text \<open>
  C1 (after the attribute keyword the next text is kept as the pending css and the step
  becomes \<open>WAITING_FOR_SELECTOR_ATTR\<close>).  The code does not do this.  The keyword sets
  \<open>selector_type\<close>, which nothing reads, and leaves the step as it is; the next text is taken
  by \<open>process_selector_value\<close> again, registered before \<open>process_selector_for_attr\<close> for the
  same step, and is stored as a plain selector.  After \<open>/parse\<close>, a url, the field name
  \<open>links\<close>, the keyword and the text \<open>a\<close>, the step is \<open>CONFIRM_SELECTORS\<close>, no pending css is
  stored and \<open>links\<close> maps to the plain selector \<open>a\<close>.
\<close>

theorem attribute_css_stored_as_simple:
  "observe 7 (run web_down [parse_msg 7, text_msg 7 (asc ''example.com''),
                            text_msg 7 (asc ''links''), text_msg 7 kw_attribute,
                            text_msg 7 (asc ''a'')] init_world) =
     Inr (Some CONFIRM_SELECTORS,
          \<lparr>url = Some (asc ''https://example.com''), current_selector = Some (asc ''links''),
           selector_type = Some (asc ''attr''), selector_value = None\<rparr>,
          Some [(Some (asc ''links''), Simple (asc ''a''))])"
  by (simp add: step_defs string_defs sample_defs Let_def)

text \<open>
  C4 (the selector is recorded exactly as the user sent it, trimmed).  The code records
  the trimmed text in lower case: after \<open>/parse\<close>, a url and the field name \<open>price\<close>, the
  text \<open>.Price\<close> is stored as the selector \<open>.price\<close>.
\<close>

theorem selector_value_lowercased:
  "observe 7 (run web_down [parse_msg 7, text_msg 7 (asc ''example.com''),
                            text_msg 7 (asc ''price''), text_msg 7 (asc ''.Price'')] init_world) =
     Inr (Some CONFIRM_SELECTORS,
          \<lparr>url = Some (asc ''https://example.com''), current_selector = Some (asc ''price''),
           selector_type = None, selector_value = None\<rparr>,
          Some [(Some (asc ''price''), Simple (asc ''.price''))])"
  by (simp add: step_defs string_defs sample_defs Let_def)

subsection \<open>Sequences of additions\<close>

lemma field_name_turn:
  assumes "fsm_state w = Some WAITING_FOR_SELECTOR_NAME \<or> fsm_state w = Some CONFIRM_SELECTORS"
    and "t \<noteq> []" and "py_lower t \<noteq> kw_done" and "py_lower t \<noteq> kw_clear"
  shows "\<exists>w'. dispatch web (text_msg uid t) w = Inr w' \<and>
               fsm_state w' = Some WAITING_FOR_SELECTOR_VALUE \<and>
               current_selector (data w') = Some (py_strip t) \<and>
               user_selectors w' = user_selectors w"
  using assms
  by (auto simp: dispatch_def has_text_def text_lower_is_def process_selector_name_def
      add_next_selector_def answer_def set_state_def text_msg_def Let_def)

lemma run_plain_additions:
  assumes "fsm_state w = Some WAITING_FOR_SELECTOR_NAME \<or> fsm_state w = Some CONFIRM_SELECTORS"
    and "user_selectors w uid = Some d"
    and "list_all plain_addition adds"
  shows "\<exists>w'. run web (plain_turns uid adds) w = Inr w' \<and>
               user_selectors w' uid =
                 Some (foldl (\<lambda>d p. dict_set (fst p) (snd p) d) d (map stored_plain adds))"
  using assms
proof (induction adds arbitrary: w d)
  case Nil
  then show ?case by (simp add: plain_turns_def)
next
  case (Cons p adds)
  from Cons.prems(3) have p: "plain_addition p" and rest: "list_all plain_addition adds"
    by simp_all
  from p Cons.prems(1) obtain w1 where
    w1: "dispatch web (text_msg uid (fst p)) w = Inr w1"
      "fsm_state w1 = Some WAITING_FOR_SELECTOR_VALUE"
      "current_selector (data w1) = Some (py_strip (fst p))"
      "user_selectors w1 = user_selectors w"
    using field_name_turn [of w "fst p" web uid] by (auto simp: plain_addition_def)
  have "\<exists>w2. dispatch web (text_msg uid (snd p)) w1 = Inr w2 \<and>
             fsm_state w2 = Some CONFIRM_SELECTORS \<and>
             user_selectors w2 (from_user (text_msg uid (snd p))) =
               Some (dict_set (current_selector (data w1))
                       (Simple (py_lower (py_strip (snd p)))) d)"
    using p w1 Cons.prems(2)
    by (intro selector_text_stored) (simp_all add: plain_addition_def text_msg_def)
  then obtain w2 where
    w2: "dispatch web (text_msg uid (snd p)) w1 = Inr w2"
      "fsm_state w2 = Some CONFIRM_SELECTORS"
      "user_selectors w2 uid = Some (dict_set (fst (stored_plain p)) (snd (stored_plain p)) d)"
    using w1(3) by (auto simp: text_msg_def stored_plain_def)
  from Cons.IH [of w2 "dict_set (fst (stored_plain p)) (snd (stored_plain p)) d"] w2 rest
  obtain w' where
    "run web (plain_turns uid adds) w2 = Inr w'"
    "user_selectors w' uid =
       Some (foldl (\<lambda>d p. dict_set (fst p) (snd p) d)
              (dict_set (fst (stored_plain p)) (snd (stored_plain p)) d) (map stored_plain adds))"
    by auto
  with w1(1) w2(1) show ?case
    by (simp add: plain_turns_def)
qed

lemma addition_turn:
  assumes "msg_command m \<notin> {Some Start, Some Help, Some Parse}"
    and "msg_text m = Some t" and "t \<noteq> []"
    and "user_selectors w (from_user m) = Some d"
    and "fsm_state w = Some WAITING_FOR_SELECTOR_VALUE \<and> py_lower (py_strip t) \<noteq> kw_attribute \<and>
           v = Simple (py_lower (py_strip t)) \<or>
         fsm_state w = Some WAITING_FOR_SELECTOR_ATTR \<and>
           v = WithAttribute (selector_value (data w)) (py_strip t)"
  shows "\<exists>w'. dispatch web m w = Inr w' \<and>
               user_selectors w' (from_user m) = Some (dict_set (current_selector (data w)) v d)"
  using assms selector_text_stored [of w m t d web] attribute_name_stored [of w m t d web]
  by auto

text \<open>
  C10.  A conversation adds a plain selector by two turns, the field name and then the
  selector text.  For every sequence of such additions, with or without a repeated field
  name, run by the router from the step \<open>WAITING_FOR_SELECTOR_NAME\<close> or \<open>CONFIRM_SELECTORS\<close>
  with no selector stored for the user, the dictionary stored at the end maps each field
  name to the selector of its last addition (\<open>map_of\<close> of the reversed sequence finds the
  last addition first) and has as keys the field names in the order of their first
  addition (\<open>remdups\<close> keeps the last occurrence of each element, here of the reversed
  sequence): a repeated name keeps the position of its first addition and all other names
  keep their order of first use.  And for every single turn by which the router adds a
  selector, through \<open>process_selector_value\<close> or through \<open>process_selector_attr\<close>, to any
  stored dictionary: afterwards the pending field name maps to the selector just sent,
  every other name to what it mapped to before, a name that was present keeps its
  position and a new name goes last.
\<close>

theorem duplicate_field_last_wins:
  "(fsm_state w \<in> {Some WAITING_FOR_SELECTOR_NAME, Some CONFIRM_SELECTORS} \<and>
    user_selectors w uid = Some [] \<and> list_all plain_addition adds \<longrightarrow>
      (\<exists>w' d. run web (plain_turns uid adds) w = Inr w' \<and>
              user_selectors w' uid = Some d \<and>
              map_of d = map_of (rev (map stored_plain adds)) \<and>
              map fst d = rev (remdups (rev (map fst (map stored_plain adds))))))
   \<and>
   (msg_command m \<notin> {Some Start, Some Help, Some Parse} \<and> msg_text m = Some t \<and> t \<noteq> [] \<and>
    user_selectors w0 (from_user m) = Some d0 \<and>
    (fsm_state w0 = Some WAITING_FOR_SELECTOR_VALUE \<and> py_lower (py_strip t) \<noteq> kw_attribute \<and>
       v = Simple (py_lower (py_strip t)) \<or>
     fsm_state w0 = Some WAITING_FOR_SELECTOR_ATTR \<and>
       v = WithAttribute (selector_value (data w0)) (py_strip t)) \<longrightarrow>
      (\<exists>w1 d1. dispatch web m w0 = Inr w1 \<and>
               user_selectors w1 (from_user m) = Some d1 \<and>
               map_of d1 = (map_of d0)(current_selector (data w0) \<mapsto> v) \<and>
               map fst d1 =
                 (if current_selector (data w0) \<in> fst ` set d0 then map fst d0
                  else map fst d0 @ [current_selector (data w0)])))"
proof (intro conjI impI)
  assume "fsm_state w \<in> {Some WAITING_FOR_SELECTOR_NAME, Some CONFIRM_SELECTORS} \<and>
          user_selectors w uid = Some [] \<and> list_all plain_addition adds"
  then obtain w' where
    "run web (plain_turns uid adds) w = Inr w'"
    "user_selectors w' uid =
       Some (foldl (\<lambda>d p. dict_set (fst p) (snd p) d) [] (map stored_plain adds))"
    using run_plain_additions [of w uid "[]" adds web] by auto
  then show "\<exists>w' d. run web (plain_turns uid adds) w = Inr w' \<and>
              user_selectors w' uid = Some d \<and>
              map_of d = map_of (rev (map stored_plain adds)) \<and>
              map fst d = rev (remdups (rev (map fst (map stored_plain adds))))"
    using map_of_foldl_dict_set [of "map stored_plain adds"]
      keys_foldl_dict_set [of "map stored_plain adds"]
    by auto
next
  assume "msg_command m \<notin> {Some Start, Some Help, Some Parse} \<and> msg_text m = Some t \<and> t \<noteq> [] \<and>
    user_selectors w0 (from_user m) = Some d0 \<and>
    (fsm_state w0 = Some WAITING_FOR_SELECTOR_VALUE \<and> py_lower (py_strip t) \<noteq> kw_attribute \<and>
       v = Simple (py_lower (py_strip t)) \<or>
     fsm_state w0 = Some WAITING_FOR_SELECTOR_ATTR \<and>
       v = WithAttribute (selector_value (data w0)) (py_strip t))"
  then obtain w1 where
    "dispatch web m w0 = Inr w1"
    "user_selectors w1 (from_user m) = Some (dict_set (current_selector (data w0)) v d0)"
    using addition_turn [of m t w0 d0 v web] by auto
  then show "\<exists>w1 d1. dispatch web m w0 = Inr w1 \<and>
               user_selectors w1 (from_user m) = Some d1 \<and>
               map_of d1 = (map_of d0)(current_selector (data w0) \<mapsto> v) \<and>
               map fst d1 =
                 (if current_selector (data w0) \<in> fst ` set d0 then map fst d0
                  else map fst d0 @ [current_selector (data w0)])"
    using map_of_dict_set [of "current_selector (data w0)" v d0]
      keys_dict_set [of "current_selector (data w0)" v d0]
    by auto
qed

theorem duplicate_field_last_wins_witness:
  "(\<exists>w' d. run web_down (plain_turns 7 three_adds) (at_step WAITING_FOR_SELECTOR_NAME None []) =
             Inr w' \<and>
           user_selectors w' 7 = Some d \<and>
           map_of d (Some (asc ''a'')) = Some (Simple (asc ''h3'')) \<and>
           map_of d (Some (asc ''b'')) = Some (Simple (asc ''h2'')) \<and>
           map fst d = [Some (asc ''a''), Some (asc ''b'')]) \<and>
   (\<exists>w1 d1. dispatch web_down (text_msg 7 (asc ''src'')) attr_world = Inr w1 \<and>
            user_selectors w1 7 = Some d1 \<and>
            map_of d1 (Some (asc ''a'')) = Some (WithAttribute (Some (asc ''img'')) (asc ''src'')) \<and>
            map_of d1 (Some (asc ''b'')) = Some (Simple (asc ''h2'')) \<and>
            map fst d1 = [Some (asc ''a''), Some (asc ''b'')])"
proof -
  have h1: "fsm_state (at_step WAITING_FOR_SELECTOR_NAME None []) \<in>
              {Some WAITING_FOR_SELECTOR_NAME, Some CONFIRM_SELECTORS} \<and>
            user_selectors (at_step WAITING_FOR_SELECTOR_NAME None []) 7 = Some [] \<and>
            list_all plain_addition three_adds"
    by (simp add: at_step_def three_adds_def plain_addition_def string_defs)
  have h2: "msg_command (text_msg 7 (asc ''src'')) \<notin> {Some Start, Some Help, Some Parse} \<and>
            msg_text (text_msg 7 (asc ''src'')) = Some (asc ''src'') \<and> asc ''src'' \<noteq> [] \<and>
            user_selectors attr_world (from_user (text_msg 7 (asc ''src''))) = Some two_fields \<and>
            (fsm_state attr_world = Some WAITING_FOR_SELECTOR_VALUE \<and>
               py_lower (py_strip (asc ''src'')) \<noteq> kw_attribute \<and>
               WithAttribute (Some (asc ''img'')) (asc ''src'') =
                 Simple (py_lower (py_strip (asc ''src''))) \<or>
             fsm_state attr_world = Some WAITING_FOR_SELECTOR_ATTR \<and>
               WithAttribute (Some (asc ''img'')) (asc ''src'') =
                 WithAttribute (selector_value (data attr_world)) (py_strip (asc ''src'')))"
    by (simp add: attr_world_def text_msg_def string_defs)
  from duplicate_field_last_wins
    [of "at_step WAITING_FOR_SELECTOR_NAME None []" 7 three_adds web_down
        "text_msg 7 (asc ''src'')" "asc ''src''" attr_world two_fields
        "WithAttribute (Some (asc ''img'')) (asc ''src'')"] h1 h2
  show ?thesis
    by (auto simp: three_adds_def stored_plain_def two_fields_def attr_world_def text_msg_def
        string_defs)
qed

subsection \<open>The done keyword\<close>

text \<open>
  C8.  For every conversation in the step \<open>CONFIRM_SELECTORS\<close> whose sender has no selectors
  stored (an empty dictionary, or none at all), the done keyword, in any letter case, is
  answered with the prompt for a field name and the step becomes
  \<open>WAITING_FOR_SELECTOR_NAME\<close>; the data, and so the url, and the stored selectors are the
  same before and after the turn.
\<close>

theorem finish_selectors_empty_spec:
  assumes "fsm_state w = Some CONFIRM_SELECTORS"
    and "msg_command m \<notin> {Some Start, Some Help, Some Parse}"
    and "msg_text m = Some t" and "py_lower t = kw_done"
    and "user_selectors w (from_user m) = None \<or> user_selectors w (from_user m) = Some []"
  shows "\<exists>w'. dispatch web m w = Inr w' \<and>
               fsm_state w' = Some WAITING_FOR_SELECTOR_NAME \<and>
               trace w' = trace w @ [Answer No_selectors] \<and>
               url (data w') = url (data w) \<and> data w' = data w \<and>
               user_selectors w' = user_selectors w"
  using assms
  by (auto simp: dispatch_def text_lower_is_def finish_selectors_def answer_def set_state_def)

theorem finish_selectors_empty_spec_witness:
  "\<exists>w'. dispatch web_down (text_msg 7 kw_done) (at_step CONFIRM_SELECTORS None []) = Inr w' \<and>
        fsm_state w' = Some WAITING_FOR_SELECTOR_NAME \<and>
        url (data w') = Some example_url"
  using finish_selectors_empty_spec
    [of "at_step CONFIRM_SELECTORS None []" "text_msg 7 kw_done" kw_done web_down]
  by (auto simp: at_step_def text_msg_def py_lower_def kw_done_def lower_cp_def)

text \<open>
  C2, as stated (after the run the url, the spec and the pending data are all cleared),
  fails for the spec: after \<open>/parse\<close>, a url, the field \<open>title\<close>, the selector \<open>h1\<close> and the
  done keyword, the step and the data are cleared but the sender's selectors are still
  stored.
\<close>

theorem done_keeps_selectors:
  "observe 7 (run web_down [parse_msg 7, text_msg 7 (asc ''example.com''),
                            text_msg 7 (asc ''title''), text_msg 7 (asc ''h1''),
                            text_msg 7 kw_done] init_world) =
     Inr (None, empty_data, Some [(Some (asc ''title''), Simple (asc ''h1''))])"
  by (simp add: step_defs string_defs sample_defs Let_def)

text \<open>
  C2, amended.  In the step \<open>CONFIRM_SELECTORS\<close>, with a non-empty dictionary of selectors
  stored for the sender, the done keyword makes the handler announce the run, call
  \<open>main_parse\<close> exactly once, with the stored url and selectors, and answer with its outcome;
  the FSM state and data (url and pending values) are cleared, so the conversation is idle,
  and the stored selectors are left as they are (the next \<open>/parse\<close> empties them:
  \<open>get_parse_resets\<close>).
\<close>

theorem finish_selectors_runs_once:
  assumes "fsm_state w = Some CONFIRM_SELECTORS"
    and "msg_command m \<notin> {Some Start, Some Help, Some Parse}"
    and "msg_text m = Some t" and "py_lower t = kw_done"
    and "user_selectors w (from_user m) = Some d" and "d \<noteq> []"
  shows "\<exists>w'. dispatch web m w = Inr w' \<and>
               trace w' = trace w @
                 [Answer (Parse_starting (url (data w)) d),
                  Main_parse (url (data w)) d,
                  Answer (parse_reply (main_parse web (url (data w)) d))] \<and>
               fsm_state w' = None \<and> data w' = empty_data \<and>
               user_selectors w' = user_selectors w"
  using assms
  by (auto simp: dispatch_def text_lower_is_def finish_selectors_def answer_def Let_def)

theorem finish_selectors_runs_once_witness:
  "\<exists>w'. dispatch web_down (text_msg 7 kw_done)
            (at_step CONFIRM_SELECTORS (Some (asc ''title''))
               [(Some (asc ''title''), Simple (asc ''h1''))]) = Inr w' \<and>
        trace w' =
          [Answer (Parse_starting (Some example_url) [(Some (asc ''title''), Simple (asc ''h1''))]),
           Main_parse (Some example_url) [(Some (asc ''title''), Simple (asc ''h1''))],
           Answer Parse_no_data] \<and>
        fsm_state w' = None \<and> data w' = empty_data \<and>
        user_selectors w' 7 = Some [(Some (asc ''title''), Simple (asc ''h1''))]"
  using finish_selectors_runs_once
    [of "at_step CONFIRM_SELECTORS (Some (asc ''title''))
           [(Some (asc ''title''), Simple (asc ''h1''))]"
        "text_msg 7 kw_done" kw_done "[(Some (asc ''title''), Simple (asc ''h1''))]" web_down]
  by (auto simp: at_step_def text_msg_def py_lower_def kw_done_def lower_cp_def
      parse_reply_def main_parse_def fetch_page_def web_down_def)

end
